theory Spec2Isabelle
  imports Complex_Main "HOL-Library.Multiset"
begin

section \<open>Numbers\<close>

text \<open>
  Python floats are modelled as real numbers; a missing cell (NaN) is \<open>None\<close>.
  \<open>py_round\<close> is Python's one-argument \<open>round\<close> (ties go to the even integer),
  \<open>py_int\<close> is \<open>int(x)\<close> (truncation towards zero) and \<open>round4\<close> is
  \<open>round(x, 4)\<close>.
\<close>

definition py_round :: "real \<Rightarrow> int" where
  "py_round x =
     (let f = \<lfloor>x\<rfloor>; d = x - of_int f
      in if d < 1 / 2 then f
         else if 1 / 2 < d then f + 1
         else if even f then f else f + 1)"

definition py_int :: "real \<Rightarrow> int" where
  "py_int x = (if 0 \<le> x then \<lfloor>x\<rfloor> else \<lceil>x\<rceil>)"

definition round4 :: "real \<Rightarrow> real" where
  "round4 x = of_int (py_round (x * 10000)) / 10000"

definition mean :: "real list \<Rightarrow> real" where
  "mean xs = sum_list xs / real (length xs)"

text \<open>The population variance; \<open>np.std\<close> and \<open>scipy.stats.zscore\<close> use its square
  root.\<close>

definition pop_variance :: "real list \<Rightarrow> real" where
  "pop_variance xs = sum_list (map (\<lambda>x. (x - mean xs)\<^sup>2) xs) / real (length xs)"

text \<open>
  Python floats are doubles, and the product, the quotient and the mean of doubles are
  rounded to the nearest double. Where such a result is truncated by \<open>int\<close> the rounding decides the
  answer: the double nearest to 0.6 lies below 3/5, yet \<open>0.6 * 5\<close> is the double 3.0
  and truncates to 3. The rounded operations are therefore parameters of the model;
  \<open>exact_ops\<close> is their instance on arguments whose exact result is a double.
\<close>

record float_ops =
  fl_times :: "real \<Rightarrow> real \<Rightarrow> real"
  fl_div :: "real \<Rightarrow> real \<Rightarrow> real"
  fl_mean :: "real list \<Rightarrow> real"

definition exact_ops :: float_ops where
  "exact_ops = \<lparr> fl_times = (\<lambda>x y. x * y), fl_div = (\<lambda>x y. x / y), fl_mean = mean \<rparr>"

section \<open>data\_preprocessing.py: the AQI sub-index of PM2.5\<close>

definition pm25_breakpoints :: "(real \<times> real \<times> real \<times> real) list" where
  "pm25_breakpoints =
     [(0, 12.0, 0, 50),
      (12.1, 35.4, 51, 100),
      (35.5, 55.4, 101, 150),
      (55.5, 150.4, 151, 200),
      (150.5, 250.4, 201, 300),
      (250.5, 350.4, 301, 400)]"

text \<open>The \<open>for\<close> loop over the breakpoint table: the first bracket containing the
  value decides, and a value in no bracket falls through to 500.\<close>

fun aqi_scan :: "(real \<times> real \<times> real \<times> real) list \<Rightarrow> real \<Rightarrow> int" where
  "aqi_scan [] v = 500"
| "aqi_scan ((bp_lo, bp_hi, aqi_lo, aqi_hi) # bps) v =
     (if bp_lo \<le> v \<and> v \<le> bp_hi
      then py_round (((aqi_hi - aqi_lo) / (bp_hi - bp_lo)) * (v - bp_lo) + aqi_lo)
      else aqi_scan bps v)"

definition pm25_to_aqi :: "real option \<Rightarrow> int option" where
  "pm25_to_aqi pm25 =
     (case pm25 of None \<Rightarrow> None | Some v \<Rightarrow> Some (aqi_scan pm25_breakpoints v))"

definition calculate_aqi_pm25 :: "real option list \<Rightarrow> int option list" where
  "calculate_aqi_pm25 pm25_values = map pm25_to_aqi pm25_values"


section \<open>threat\_detection.py: the threat classifier\<close>

text \<open>
  A cell of a pandas DataFrame is a number, a missing value, or any other object
  (a string, say). After \<open>fillna(0)\<close> no missing value is left, which the second
  type records. A row taken with \<open>iloc[-1]\<close> is a Series: an association list from
  column names to cells.
\<close>

datatype cell = Num real | NaN | Text string

datatype filled = Val real | Obj string

type_synonym row = "(string \<times> cell) list"

type_synonym series = "(string \<times> filled) list"

record frame =
  df_columns :: "string list"
  df_rows :: "row list"

text \<open>A DataFrame built from a list of dicts has NaN where a dict lacks the key.\<close>

definition cell_at :: "row \<Rightarrow> string \<Rightarrow> cell" where
  "cell_at r c = (case map_of r c of None \<Rightarrow> NaN | Some v \<Rightarrow> v)"

fun fillna0_cell :: "cell \<Rightarrow> filled" where
  "fillna0_cell (Num x) = Val x"
| "fillna0_cell NaN = Val 0"
| "fillna0_cell (Text s) = Obj s"

text \<open>\<open>data[available_features].fillna(0)\<close>, row by row.\<close>

definition select_fillna0 :: "frame \<Rightarrow> string list \<Rightarrow> series list" where
  "select_fillna0 data available_features =
     map (\<lambda>r. map (\<lambda>c. (c, fillna0_cell (cell_at r c))) available_features) (df_rows data)"

text \<open>\<open>feature_data.iloc[-1] if not feature_data.empty else pd.Series()\<close>.\<close>

definition latest_row :: "series list \<Rightarrow> series" where
  "latest_row feature_data = (if feature_data = [] then [] else last feature_data)"

text \<open>\<open>latest_data.get(name, default)\<close>.\<close>

definition series_get :: "series \<Rightarrow> string \<Rightarrow> real \<Rightarrow> filled" where
  "series_get s name dflt = (case map_of s name of None \<Rightarrow> Val dflt | Some v \<Rightarrow> v)"

text \<open>Comparing or dividing a non-numeric object raises TypeError: \<open>None\<close>.\<close>

fun num :: "filled \<Rightarrow> real option" where
  "num (Val x) = Some x"
| "num (Obj s) = None"

definition confidence_thresholds :: "(string \<times> real) list" where
  "confidence_thresholds =
     [(''storm'', 0.80), (''pollution'', 0.75), (''erosion'', 0.70),
      (''algal_bloom'', 0.80), (''illegal_dumping'', 0.85)]"

definition threat_features :: "(string \<times> string list) list" where
  "threat_features =
     [(''storm'', [''wind_speed'', ''pressure'', ''temperature'', ''humidity'',
                   ''visibility'', ''wind_direction'']),
      (''pollution'', [''pm25'', ''pm10'', ''ozone'', ''wind_speed'', ''temperature'',
                       ''humidity'']),
      (''erosion'', [''wave_height'', ''tide_level'', ''wind_speed'', ''precipitation'',
                     ''temperature'']),
      (''algal_bloom'', [''water_temperature'', ''salinity'', ''visibility'',
                         ''wave_height'', ''tide_level'']),
      (''illegal_dumping'', [''visibility'', ''wind_speed'', ''wave_height'',
                             ''water_temperature''])]"

subsection \<open>Rule-based detection\<close>

definition storm_rule :: "real \<Rightarrow> real \<Rightarrow> real \<times> int" where
  "storm_rule wind_speed pressure =
     (let (confidence, severity) =
            (if wind_speed > 118 then (0.95, 5)
             else if wind_speed > 88 then (0.85, 4)
             else if wind_speed > 62 then (0.75, 3)
             else if wind_speed > 39 then (0.65, 2)
             else (0.0, 1))
      in if pressure < 980
         then (min (confidence + 0.15) 1.0, min (severity + 1) 5)
         else (confidence, severity))"

definition pollution_rule :: "real \<Rightarrow> real \<Rightarrow> real \<times> int" where
  "pollution_rule pm25 pm10 =
     (let (confidence, severity) =
            (if pm25 > 75 then (0.90, 5)
             else if pm25 > 55 then (0.80, 4)
             else if pm25 > 35 then (0.70, 3)
             else if pm25 > 25 then (0.60, 2)
             else (0.0, 1))
      in if pm10 > 150
         then (max confidence 0.80, max severity 4)
         else (confidence, severity))"

definition algal_bloom_rule :: "real \<Rightarrow> real \<Rightarrow> real \<Rightarrow> real \<times> int" where
  "algal_bloom_rule water_temp visibility salinity =
     (let temp_factor = (if water_temp > 28 then 0.4 else if water_temp > 25 then 0.2 else 0.0);
          visibility_factor = (if visibility < 2 then 0.5 else if visibility < 5 then 0.3 else 0.0);
          salinity_factor = (if 30 \<le> salinity \<and> salinity \<le> 38 then 0.2 else 0.0);
          confidence = min (temp_factor + visibility_factor + salinity_factor) 1.0
      in (confidence, max 1 (min 5 (py_int (confidence * 5) + 1))))"

definition erosion_rule :: "real \<Rightarrow> real \<Rightarrow> real \<times> int" where
  "erosion_rule wave_height wind_speed =
     (let wave_factor = min (wave_height / 10.0) 1.0;
          wind_factor = min (wind_speed / 100.0) 1.0;
          confidence = (wave_factor * 0.6) + (wind_factor * 0.4)
      in (confidence, max 1 (min 5 (py_int (confidence * 4) + 1))))"

definition illegal_dumping_rule :: "real \<Rightarrow> real \<times> int" where
  "illegal_dumping_rule visibility = (if visibility < 3 then (0.60, 3) else (0.0, 1))"

text \<open>The body of the \<open>try\<close> block: \<open>None\<close> when it raises. Only the values that
  are compared or divided can raise; \<open>tide_level\<close> and the \<open>water_temperature\<close> of
  illegal dumping are read and never used.\<close>

definition rule_based_try :: "string \<Rightarrow> series list \<Rightarrow> (real \<times> int) option" where
  "rule_based_try threat_type feature_data =
     (let latest_data = latest_row feature_data in
      if threat_type = ''storm'' then
        (case (num (series_get latest_data ''wind_speed'' 0),
               num (series_get latest_data ''pressure'' 1013)) of
           (Some wind_speed, Some pressure) \<Rightarrow> Some (storm_rule wind_speed pressure)
         | _ \<Rightarrow> None)
      else if threat_type = ''pollution'' then
        (case (num (series_get latest_data ''pm25'' 0),
               num (series_get latest_data ''pm10'' 0)) of
           (Some pm25, Some pm10) \<Rightarrow> Some (pollution_rule pm25 pm10)
         | _ \<Rightarrow> None)
      else if threat_type = ''algal_bloom'' then
        (case (num (series_get latest_data ''water_temperature'' 20),
               num (series_get latest_data ''visibility'' 10),
               num (series_get latest_data ''salinity'' 35)) of
           (Some water_temp, Some visibility, Some salinity) \<Rightarrow>
              Some (algal_bloom_rule water_temp visibility salinity)
         | _ \<Rightarrow> None)
      else if threat_type = ''erosion'' then
        (case (num (series_get latest_data ''wave_height'' 0),
               num (series_get latest_data ''wind_speed'' 0)) of
           (Some wave_height, Some wind_speed) \<Rightarrow> Some (erosion_rule wave_height wind_speed)
         | _ \<Rightarrow> None)
      else if threat_type = ''illegal_dumping'' then
        (case num (series_get latest_data ''visibility'' 10) of
           Some visibility \<Rightarrow> Some (illegal_dumping_rule visibility)
         | None \<Rightarrow> None)
      else Some (0.0, 1))"

text \<open>\<open>_rule_based_detection\<close>: the \<open>except\<close> branch returns \<open>(0.0, 1)\<close>.\<close>

definition rule_based_detection :: "string \<Rightarrow> series list \<Rightarrow> real \<times> int" where
  "rule_based_detection threat_type feature_data =
     (case rule_based_try threat_type feature_data of None \<Rightarrow> (0.0, 1) | Some r \<Rightarrow> r)"

subsection \<open>Trained ensemble\<close>

text \<open>
  The fitted scikit-learn objects are parameters of the model: a scaler maps the feature
  matrix to the scaled matrix, a classifier maps the scaled matrix to its
  \<open>predict_proba\<close> matrix; either may raise (\<open>None\<close>).
\<close>

type_synonym matrix = "real list list"

type_synonym scaler = "matrix \<Rightarrow> matrix option"

type_synonym classifier = "matrix \<Rightarrow> matrix option"

record engine =
  models :: "(string \<times> (string \<times> classifier) list) list"
  scalers :: "(string \<times> scaler) list"
  feature_columns :: "(string \<times> string list) list"
  is_trained :: "(string \<times> bool) list"

text \<open>A feature matrix holding a non-numeric object cannot be converted: the scaler
  raises.\<close>

definition to_matrix :: "series list \<Rightarrow> matrix option" where
  "to_matrix feature_data =
     (if \<forall>r \<in> set feature_data. \<forall>(c, v) \<in> set r. num v \<noteq> None
      then Some (map (\<lambda>r. map (\<lambda>(c, v). the (num v)) r) feature_data)
      else None)"

text \<open>One model's vote: the confidence it contributes, or \<open>None\<close> when anything in the
  inner \<open>try\<close> raises (the model itself, or an index out of range).\<close>

definition model_confidence :: "classifier \<Rightarrow> matrix \<Rightarrow> real option" where
  "model_confidence model X_scaled =
     (case model X_scaled of
        None \<Rightarrow> None
      | Some pred_proba \<Rightarrow>
          (case pred_proba of
             [] \<Rightarrow> None
           | first # rest \<Rightarrow>
               if length first > 1 then Some (Max (set first))
               else (case first of [] \<Rightarrow> None | p # ps \<Rightarrow> Some p)))"

fun collect_confidences :: "(string \<times> classifier) list \<Rightarrow> matrix \<Rightarrow> real list" where
  "collect_confidences [] X_scaled = []"
| "collect_confidences ((name, model) # ms) X_scaled =
     (case model_confidence model X_scaled of
        None \<Rightarrow> collect_confidences ms X_scaled
      | Some c \<Rightarrow> c # collect_confidences ms X_scaled)"

definition predict_with_ensemble ::
  "float_ops \<Rightarrow> engine \<Rightarrow> string \<Rightarrow> series list \<Rightarrow> real \<times> int" where
  "predict_with_ensemble ops eng threat_type feature_data =
     (case (map_of (scalers eng) threat_type, to_matrix feature_data,
            map_of (models eng) threat_type) of
        (Some scaler, Some X, Some ensemble) \<Rightarrow>
          (case scaler X of
             None \<Rightarrow> (0.0, 1)
           | Some X_scaled \<Rightarrow>
               (let confidences = collect_confidences ensemble X_scaled in
                if confidences = [] then (0.0, 1)
                else (let avg_confidence = fl_mean ops confidences;
                          severity = max 1 (min 5 (py_int (fl_times ops avg_confidence 5) + 1))
                      in (avg_confidence, severity))))
      | _ \<Rightarrow> (0.0, 1))"

subsection \<open>One threat type\<close>

text \<open>The result without its description text and processing time.\<close>

record threat_detection_result =
  threat_type :: string
  confidence :: real
  severity :: int
  detected :: bool
  features_used :: "string list"
  ensemble_confidence :: real
  feature_count :: nat
  detection_method :: string
  threshold_used :: real

definition detect_single_threat ::
  "float_ops \<Rightarrow> engine \<Rightarrow> string \<Rightarrow> frame \<Rightarrow> threat_detection_result option" where
  "detect_single_threat ops eng ttype data =
     (case map_of (feature_columns eng) ttype of
        None \<Rightarrow> None
      | Some required_features \<Rightarrow>
          (let available_features = filter (\<lambda>f. f \<in> set (df_columns data)) required_features in
           if length available_features < 2 then None
           else
             (let feature_data = select_fillna0 data available_features in
              case map_of (is_trained eng) ttype of
                None \<Rightarrow> None
              | Some trained \<Rightarrow>
                  (let (conf, sev) =
                         (if trained then predict_with_ensemble ops eng ttype feature_data
                          else rule_based_detection ttype feature_data)
                   in case map_of confidence_thresholds ttype of
                        None \<Rightarrow> None
                      | Some threshold \<Rightarrow>
                          Some \<lparr> threat_type = ttype,
                                 confidence = round4 conf,
                                 severity = sev,
                                 detected = (conf \<ge> threshold),
                                 features_used = available_features,
                                 ensemble_confidence = conf,
                                 feature_count = length available_features,
                                 detection_method = (if trained then ''ensemble'' else ''rule_based''),
                                 threshold_used = threshold \<rparr>))))"

text \<open>The engine after \<open>initialize_models\<close>: every configured threat type has its four
  unfitted classifiers (which raise when asked to predict) and is not trained.\<close>

definition unfitted :: classifier where
  "unfitted X = None"

definition configured_threat_types :: "string list" where
  "configured_threat_types = [''storm'', ''pollution'', ''erosion'', ''algal_bloom'', ''illegal_dumping'']"

definition initialized_engine :: engine where
  "initialized_engine =
     \<lparr> models = map (\<lambda>t. (t, [(''rf'', unfitted), (''gb'', unfitted), (''svm'', unfitted),
                                 (''mlp'', unfitted)])) configured_threat_types,
       scalers = map (\<lambda>t. (t, (\<lambda>X. None))) configured_threat_types,
       feature_columns = map (\<lambda>t. (t, case map_of threat_features t of None \<Rightarrow> [] | Some fs \<Rightarrow> fs))
                            configured_threat_types,
       is_trained = map (\<lambda>t. (t, False)) configured_threat_types \<rparr>"

subsection \<open>The severity rule as the specification words it\<close>







subsection \<open>Sample inputs\<close>

definition storm_input :: frame where
  "storm_input = \<lparr> df_columns = [''wind_speed'', ''pressure''],
                    df_rows = [[(''wind_speed'', Num 130), (''pressure'', Num 970)]] \<rparr>"








section \<open>prediction\_models.py: the threat predictor\<close>

subsection \<open>Building a DataFrame from the input records\<close>

text \<open>
  The pandas operations that \<open>_prepare_features\<close> calls, on the frame model above.
  \<open>pd.DataFrame(data)\<close> has the union of the dicts' keys as columns, in the order in
  which they first appear. Missing values sort last, numbers before other objects.
\<close>

definition frame_of_records :: "row list \<Rightarrow> frame" where
  "frame_of_records data =
     \<lparr> df_columns = rev (remdups (rev (concat (map (map fst) data)))),
       df_rows = data \<rparr>"

definition df_empty :: "frame \<Rightarrow> bool" where
  "df_empty df = (df_rows df = [] \<or> df_columns df = [])"

definition empty_frame :: frame where
  "empty_frame = \<lparr> df_columns = [], df_rows = [] \<rparr>"

fun string_less :: "string \<Rightarrow> string \<Rightarrow> bool" where
  "string_less [] [] = False"
| "string_less [] (y # ys) = True"
| "string_less (x # xs) [] = False"
| "string_less (x # xs) (y # ys) =
     ((of_char x :: nat) < of_char y \<or> (x = y \<and> string_less xs ys))"

fun cell_less :: "cell \<Rightarrow> cell \<Rightarrow> bool" where
  "cell_less (Num a) (Num b) = (a < b)"
| "cell_less (Num a) (Text t) = True"
| "cell_less (Text s) (Num b) = False"
| "cell_less (Text s) (Text t) = string_less s t"
| "cell_less NaN c = False"
| "cell_less c NaN = True"

text \<open>A stable insertion sort by a key.\<close>

fun insort_by :: "('a \<Rightarrow> cell) \<Rightarrow> 'a \<Rightarrow> 'a list \<Rightarrow> 'a list" where
  "insort_by key x [] = [x]"
| "insort_by key x (y # ys) =
     (if cell_less (key x) (key y) then x # y # ys else y # insort_by key x ys)"

definition sort_by :: "('a \<Rightarrow> cell) \<Rightarrow> 'a list \<Rightarrow> 'a list" where
  "sort_by key xs = fold (insort_by key) xs []"

fun is_text :: "cell \<Rightarrow> bool" where
  "is_text (Text s) = True"
| "is_text c = False"

fun is_num :: "cell \<Rightarrow> bool" where
  "is_num (Num x) = True"
| "is_num c = False"

definition column_cells :: "frame \<Rightarrow> string \<Rightarrow> cell list" where
  "column_cells df c = map (\<lambda>r. cell_at r c) (df_rows df)"

text \<open>\<open>df[column].dropna()\<close> on a numeric column: its numbers, in row order.\<close>

definition dropna :: "cell list \<Rightarrow> real list" where
  "dropna cells = concat (map (\<lambda>c. case c of Num x \<Rightarrow> [x] | _ \<Rightarrow> []) cells)"

text \<open>\<open>select_dtypes(include=[np.number])\<close>: the columns holding numbers and missing
  values only.\<close>

definition numeric_columns :: "frame \<Rightarrow> string list" where
  "numeric_columns df = filter (\<lambda>c. \<forall>v \<in> set (column_cells df c). \<not> is_text v) (df_columns df)"

text \<open>Python's \<open>str\<close> of a number is not modelled; where a number becomes a column
  label it is rendered by a parameter of this type.\<close>

type_synonym num_format = "real \<Rightarrow> string"

fun label_of :: "num_format \<Rightarrow> cell \<Rightarrow> string" where
  "label_of fmt (Text s) = s"
| "label_of fmt (Num x) = fmt x"
| "label_of fmt NaN = ''nan''"

text \<open>
  \<open>df.pivot_table(index=..., columns='data_type', values='value', aggfunc='mean')
  .reset_index()\<close>: one row per index key, one column per data type, each cell the mean
  of the values recorded for that key and type. Rows with a missing key or type are
  left out, as are result rows and columns without any value; a non-numeric
  \<open>value\<close> column makes the aggregation raise (\<open>None\<close>).
\<close>

definition pivot_table :: "num_format \<Rightarrow> frame \<Rightarrow> frame option" where
  "pivot_table fmt df =
     (let use_ts = (''timestamp'' \<in> set (df_columns df));
          index_name = (if use_ts then ''timestamp'' else ''index'');
          keyed = map (\<lambda>(i, r). (if use_ts then cell_at r ''timestamp'' else Num (real i),
                                 cell_at r ''data_type'', cell_at r ''value''))
                      (enumerate 0 (df_rows df))
      in if \<exists>(k, t, v) \<in> set keyed. is_text v then None
         else
           (let valid = filter (\<lambda>(k, t, v). k \<noteq> NaN \<and> t \<noteq> NaN \<and> is_num v) keyed;
                keys = sort_by id (remdups (map fst valid));
                types = sort_by id (remdups (map (\<lambda>(k, t, v). t) valid));
                values_of = (\<lambda>k t. concat (map (\<lambda>(k', t', v).
                               (case v of Num x \<Rightarrow> if k' = k \<and> t' = t then [x] else []
                                | _ \<Rightarrow> [])) valid));
                cell_of = (\<lambda>k t. if values_of k t = [] then NaN else Num (mean (values_of k t)))
            in Some \<lparr> df_columns = index_name # map (label_of fmt) types,
                      df_rows = map (\<lambda>k. (index_name, k) # map (\<lambda>t. (label_of fmt t, cell_of k t)) types)
                                    keys \<rparr>))"

text \<open>\<open>str(col).lower().replace(' ', '_')\<close>, on ASCII letters.\<close>

definition lower_char :: "char \<Rightarrow> char" where
  "lower_char c =
     (if (65 :: nat) \<le> of_char c \<and> of_char c \<le> (90 :: nat)
      then char_of (of_char c + (32 :: nat)) else c)"

definition clean_name :: "string \<Rightarrow> string" where
  "clean_name col = map (\<lambda>c. if c = CHR '' '' then CHR ''_'' else c) (map lower_char col)"

text \<open>Renaming the columns renames the keys of every row; should two columns receive
  the same name, a lookup finds the first.\<close>

definition rename_columns :: "(string \<Rightarrow> string) \<Rightarrow> frame \<Rightarrow> frame" where
  "rename_columns f df =
     \<lparr> df_columns = map f (df_columns df),
       df_rows = map (map (\<lambda>(k, v). (f k, v))) (df_rows df) \<rparr>"

text \<open>\<open>df[numeric_cols] = df[numeric_cols].fillna(0)\<close>. The rows are stored with a
  cell for every column.\<close>

definition fillna0_numeric :: "frame \<Rightarrow> frame" where
  "fillna0_numeric df =
     (let numeric_cols = numeric_columns df
      in \<lparr> df_columns = df_columns df,
           df_rows = map (\<lambda>r. map (\<lambda>c. (c, if c \<in> set numeric_cols \<and> cell_at r c = NaN
                                            then Num 0 else cell_at r c)) (df_columns df))
                         (df_rows df) \<rparr>)"

text \<open>\<open>df.sort_values('timestamp')\<close>: a column mixing numbers and other objects cannot
  be ordered and raises.\<close>

definition sort_values :: "string \<Rightarrow> frame \<Rightarrow> frame option" where
  "sort_values c df =
     (let cells = column_cells df c
      in if (\<exists>v \<in> set cells. is_num v) \<and> (\<exists>v \<in> set cells. is_text v) then None
         else Some \<lparr> df_columns = df_columns df,
                     df_rows = sort_by (\<lambda>r. cell_at r c) (df_rows df) \<rparr>)"

text \<open>\<open>ThreatPredictor._prepare_features\<close>; every exception ends in the empty frame.\<close>

definition prepare_features_predictor :: "num_format \<Rightarrow> row list \<Rightarrow> frame" where
  "prepare_features_predictor fmt data =
     (if data = [] then empty_frame
      else
        (let df = frame_of_records data;
             pivoted = (if ''data_type'' \<in> set (df_columns df) \<and> ''value'' \<in> set (df_columns df)
                        then pivot_table fmt df else Some df)
         in case pivoted of
              None \<Rightarrow> empty_frame
            | Some df1 \<Rightarrow>
                (let df2 = fillna0_numeric (rename_columns clean_name df1)
                 in if ''timestamp'' \<in> set (df_columns df2)
                    then (case sort_values ''timestamp'' df2 of
                            None \<Rightarrow> empty_frame
                          | Some df3 \<Rightarrow> df3)
                    else df2)))"

subsection \<open>Risk severity of a predicted value\<close>

definition risk_thresholds :: "(string \<times> real list) list" where
  "risk_thresholds =
     [(''wind_speed'', [39, 62, 88, 118]),
      (''pressure'', [1000, 990, 980, 970]),
      (''pm25'', [25, 35, 55, 75]),
      (''pm10'', [50, 100, 150, 250]),
      (''wave_height'', [2, 4, 6, 8]),
      (''temperature'', [30, 35, 40, 45]),
      (''water_temperature'', [25, 28, 30, 32]),
      (''visibility'', [5, 3, 2, 1])]"

text \<open>The descending loop returns at the first threshold the value is at or below.\<close>

fun descending_scan :: "nat \<Rightarrow> real list \<Rightarrow> real \<Rightarrow> int" where
  "descending_scan i [] v = 1"
| "descending_scan i (threshold # ts) v =
     (if v \<le> threshold then int i + 2 else descending_scan (Suc i) ts v)"

text \<open>The ascending loop runs to the end and keeps the last threshold reached.\<close>

fun ascending_scan :: "nat \<Rightarrow> real list \<Rightarrow> int \<Rightarrow> real \<Rightarrow> int" where
  "ascending_scan i [] sev v = sev"
| "ascending_scan i (threshold # ts) sev v =
     ascending_scan (Suc i) ts (if v \<ge> threshold then int i + 2 else sev) v"

definition assess_threat_severity :: "string \<Rightarrow> real \<Rightarrow> int" where
  "assess_threat_severity parameter v =
     (case map_of risk_thresholds parameter of
        None \<Rightarrow> 1
      | Some thresholds \<Rightarrow>
          if parameter \<in> set [''pressure'', ''visibility'']
          then descending_scan 0 thresholds v
          else min (ascending_scan 0 thresholds 1 v) 5)"

subsection \<open>Sliding-window training examples\<close>

text \<open>\<open>window.std()\<close> is the sample standard deviation (one degree of freedom less).\<close>

definition sample_std :: "real list \<Rightarrow> real" where
  "sample_std xs =
     sqrt (sum_list (map (\<lambda>x. (x - mean xs)\<^sup>2) xs) / (real (length xs) - 1))"

definition window_features :: "real list \<Rightarrow> real list" where
  "window_features window =
     window @
     [mean window,
      sample_std window,
      Min (set window),
      Max (set window),
      (if length window > 1 then last window - window ! (length window - 2) else 0),
      (if length window > 1 then (last window - hd window) / real (length window) else 0)]"

text \<open>
  \<open>_create_time_series_features(values, max_forecast_hour)\<close>: the loop
  \<open>for i in range(window_size, len(values) - max_forecast_hour)\<close> with the window
  \<open>values.iloc[i - window_size:i]\<close> and the label \<open>values.iloc[i + max_forecast_hour]\<close>.
  Forecast hours are natural numbers here, so no index leaves the series.
\<close>

definition window_size_of :: "real list \<Rightarrow> nat" where
  "window_size_of vals = max 3 (min 24 (length vals div 3))"

definition create_time_series_features :: "real list \<Rightarrow> nat \<Rightarrow> real list list \<times> real list" where
  "create_time_series_features vals max_forecast_hour =
     (let window_size = window_size_of vals;
          idx = [window_size ..< length vals - max_forecast_hour]
      in (map (\<lambda>i. window_features (take window_size (drop (i - window_size) vals))) idx,
          map (\<lambda>i. vals ! (i + max_forecast_hour)) idx))"

text \<open>
  What \<open>_predict_parameter\<close> hands to \<open>_train_parameter_models(parameter, X, y,
  forecast_hour)\<close> for a requested horizon whose models are not yet trained: the
  examples are built once, before the loop over the horizons, from
  \<open>max(forecast_hours)\<close>. \<open>None\<close> stands for the early returns (fewer than 10
  values, no example) and for a horizon that was not requested.
\<close>

definition training_examples ::
  "real list \<Rightarrow> nat list \<Rightarrow> nat \<Rightarrow> (real list list \<times> real list) option" where
  "training_examples vals forecast_hours forecast_hour =
     (if length vals < 10 \<or> forecast_hours = [] \<or> forecast_hour \<notin> set forecast_hours then None
      else (let (X, y) = create_time_series_features vals (Max (set forecast_hours))
            in if X = [] then None else Some (X, y)))"

text \<open>The examples as the specification words them: for horizon \<open>h\<close> the label lies
  \<open>h\<close> steps after the window end.\<close>

definition spec_training_examples :: "real list \<Rightarrow> nat \<Rightarrow> real list list \<times> real list" where
  "spec_training_examples vals forecast_hour = create_time_series_features vals forecast_hour"

subsection \<open>predict\_threats\<close>

record predicted_alert =
  alert_parameter :: string
  alert_forecast_hour :: nat
  alert_predicted_value :: real
  alert_severity :: int
  alert_confidence :: real

text \<open>The metadata is either the error message or the counts of a completed run
  (location and processing time are left out).\<close>

datatype metadata = MetaError string | MetaRun nat nat nat

record prediction_result =
  predictions :: "(string \<times> real list) list"
  forecast_hours :: "nat list"
  confidence_intervals :: "(string \<times> (real \<times> real) list) list"
  model_performance :: "string + (string \<times> real) list"
  trend_analysis :: "(string \<times> string) list"
  risk_assessment :: "(string \<times> int) list"
  alerts_predicted :: "predicted_alert list"
  metadata :: metadata

record predictor =
  forecast_horizons :: "nat list"
  min_data_points :: nat

definition default_predictor :: predictor where
  "default_predictor = \<lparr> forecast_horizons = [2, 4, 8, 24], min_data_points = 50 \<rparr>"

definition prediction_parameters :: "string list" where
  "prediction_parameters =
     [''temperature'', ''pressure'', ''wind_speed'', ''humidity'',
      ''pm25'', ''pm10'', ''ozone'', ''water_temperature'', ''wave_height'',
      ''tide_level'', ''visibility'', ''salinity'']"

definition create_empty_prediction :: "predictor \<Rightarrow> string \<Rightarrow> prediction_result" where
  "create_empty_prediction self message =
     \<lparr> predictions = [],
       forecast_hours = forecast_horizons self,
       confidence_intervals = [],
       model_performance = Inl message,
       trend_analysis = [],
       risk_assessment = [],
       alerts_predicted = [],
       metadata = MetaError message \<rparr>"

text \<open>
  The inner loop \<open>for i, hour in enumerate(forecast_hours)\<close> over one parameter's
  predictions. Reading \<open>param_confidence[i]\<close> past the end raises IndexError
  (\<open>None\<close>), which the outer \<open>except\<close> of \<open>predict_threats\<close> catches.
\<close>

fun alerts_loop ::
  "string \<Rightarrow> real list \<Rightarrow> (real \<times> real) list \<Rightarrow> nat \<Rightarrow> nat list \<Rightarrow> predicted_alert list option" where
  "alerts_loop parameter param_predictions param_confidence i [] = Some []"
| "alerts_loop parameter param_predictions param_confidence i (hour # hours) =
     (if param_predictions \<noteq> [] \<and> i < length param_predictions
      then
        (let predicted_value = param_predictions ! i;
             sev = assess_threat_severity parameter predicted_value
         in if sev \<ge> 3
            then
              (if param_confidence \<noteq> [] \<and> \<not> i < length param_confidence then None
               else
                 (case alerts_loop parameter param_predictions param_confidence (Suc i) hours of
                    None \<Rightarrow> None
                  | Some rest \<Rightarrow>
                      Some (\<lparr> alert_parameter = parameter,
                              alert_forecast_hour = hour,
                              alert_predicted_value = predicted_value,
                              alert_severity = sev,
                              alert_confidence =
                                (if param_confidence \<noteq> []
                                 then snd (param_confidence ! i) - fst (param_confidence ! i)
                                 else 0.5) \<rparr> # rest)))
            else alerts_loop parameter param_predictions param_confidence (Suc i) hours)
      else alerts_loop parameter param_predictions param_confidence (Suc i) hours)"

text \<open>
  \<open>_predict_parameter\<close> runs the fitted regressors; it enters the model as a
  parameter giving, for a column of the frame, the predictions, their intervals, the
  trend and the risk level.
\<close>

type_synonym parameter_forecast = "real list \<times> (real \<times> real) list \<times> string \<times> int"

type_synonym parameter_predictor = "frame \<Rightarrow> string \<Rightarrow> nat list \<Rightarrow> parameter_forecast"

text \<open>The loop \<open>for parameter in self.prediction_parameters\<close>: the dictionaries and
  the alert list grow in step; \<open>None\<close> when an iteration raises.\<close>

fun parameters_loop ::
  "parameter_predictor \<Rightarrow> frame \<Rightarrow> nat list \<Rightarrow> string list \<Rightarrow>
   ((string \<times> parameter_forecast) list \<times> predicted_alert list) option" where
  "parameters_loop predict_parameter df hours [] = Some ([], [])"
| "parameters_loop predict_parameter df hours (parameter # ps) =
     (if parameter \<in> set (df_columns df)
      then
        (let (param_predictions, param_confidence, param_trend, param_risk) =
               predict_parameter df parameter hours
         in case alerts_loop parameter param_predictions param_confidence 0 hours of
              None \<Rightarrow> None
            | Some alerts \<Rightarrow>
                (case parameters_loop predict_parameter df hours ps of
                   None \<Rightarrow> None
                 | Some (entries, more_alerts) \<Rightarrow>
                     Some ((parameter, (param_predictions, param_confidence, param_trend, param_risk))
                             # entries,
                           alerts @ more_alerts)))
      else parameters_loop predict_parameter df hours ps)"

text \<open>
  \<open>predict_threats\<close>. \<open>forecast_hours or self.forecast_horizons\<close> falls back to the
  configured horizons for \<open>None\<close> and for the empty list.
  \<open>_calculate_performance_metrics\<close> reads the evaluation scores of the fitted
  regressors and is a parameter too.
\<close>

definition predict_threats ::
  "predictor \<Rightarrow> num_format \<Rightarrow> parameter_predictor \<Rightarrow>
   ((string \<times> real list) list \<Rightarrow> string + (string \<times> real) list) \<Rightarrow>
   row list \<Rightarrow> nat list option \<Rightarrow> prediction_result" where
  "predict_threats self fmt predict_parameter performance historical_data requested_hours =
     (let hours = (case requested_hours of
                     None \<Rightarrow> forecast_horizons self
                   | Some hs \<Rightarrow> if hs = [] then forecast_horizons self else hs);
          df = prepare_features_predictor fmt historical_data
      in if df_empty df \<or> length (df_rows df) < min_data_points self
         then create_empty_prediction self ''Insufficient historical data''
         else
           (case parameters_loop predict_parameter df hours prediction_parameters of
              None \<Rightarrow> create_empty_prediction self ''Prediction error: list index out of range''
            | Some (entries, alerts) \<Rightarrow>
                (let preds = map (\<lambda>(p, (pr, ci, tr, ri)). (p, pr)) entries
                 in \<lparr> predictions = preds,
                      forecast_hours = hours,
                      confidence_intervals = map (\<lambda>(p, (pr, ci, tr, ri)). (p, ci)) entries,
                      model_performance = performance preds,
                      trend_analysis = map (\<lambda>(p, (pr, ci, tr, ri)). (p, tr)) entries,
                      risk_assessment = map (\<lambda>(p, (pr, ci, tr, ri)). (p, ri)) entries,
                      alerts_predicted = alerts,
                      metadata = MetaRun (length (df_rows df)) (length preds) (length alerts) \<rparr>)))"

subsection \<open>A small run of the predictor\<close>

text \<open>A predictor configured to accept a single sample, one record of history, and a
  stand-in for the regressors that predicts the latest value at every horizon.\<close>

definition sample_predictor :: predictor where
  "sample_predictor = \<lparr> forecast_horizons = [2], min_data_points = 1 \<rparr>"

definition sample_history :: "row list" where
  "sample_history = [[(''pressure'', Num 950), (''wind_speed'', Num 130)]]"

definition persistence_forecast :: parameter_predictor where
  "persistence_forecast df parameter hours =
     (case cell_at (last (df_rows df)) parameter of
        Num x \<Rightarrow> (map (\<lambda>h. x) hours, map (\<lambda>h. (x * 0.95, x * 1.05)) hours, ''stable'', 1)
      | _ \<Rightarrow> ([], [], ''insufficient_data'', 1))"

definition no_performance :: "(string \<times> real list) list \<Rightarrow> string + (string \<times> real) list" where
  "no_performance preds = Inr []"

definition no_format :: num_format where
  "no_format x = ''number''"

subsection \<open>The examples a call fits its models on\<close>

text \<open>
  \<open>initialize_models\<close> gives every prediction parameter and every configured horizon
  an unfitted ensemble and a scaler, not yet trained. A pair without them makes
  \<open>_train_parameter_models\<close> raise KeyError, which it catches, fitting nothing.
\<close>

record predictor_models =
  initialised_pairs :: "(string \<times> nat) list"
  trained_pairs :: "(string \<times> nat) list"

definition initialized_models :: "predictor \<Rightarrow> predictor_models" where
  "initialized_models self =
     \<lparr> initialised_pairs = List.product prediction_parameters (forecast_horizons self),
       trained_pairs = [] \<rparr>"

definition requested_hours_or_default :: "predictor \<Rightarrow> nat list option \<Rightarrow> nat list" where
  "requested_hours_or_default self requested_hours =
     (case requested_hours of
        None \<Rightarrow> forecast_horizons self
      | Some hs \<Rightarrow> if hs = [] then forecast_horizons self else hs)"

text \<open>
  The examples on which one call of \<open>predict_threats\<close> fits the ensemble of a
  parameter and a horizon, \<open>None\<close> when it fits none: the history must pass the
  minimum-sample guard, the parameter must be a numeric column of the frame, the pair
  must be initialised and not yet trained, and \<open>_train_parameter_models\<close> asks for
  at least 10 examples.
\<close>

definition fitted_examples ::
  "predictor \<Rightarrow> predictor_models \<Rightarrow> num_format \<Rightarrow> row list \<Rightarrow> nat list option \<Rightarrow>
   string \<Rightarrow> nat \<Rightarrow> (real list list \<times> real list) option" where
  "fitted_examples self st fmt historical_data requested_hours parameter forecast_hour =
     (let hours = requested_hours_or_default self requested_hours;
          df = prepare_features_predictor fmt historical_data
      in if df_empty df \<or> length (df_rows df) < min_data_points self then None
         else if parameter \<notin> set prediction_parameters \<or> parameter \<notin> set (df_columns df)
         then None
         else if \<exists>v \<in> set (column_cells df parameter). is_text v then None
         else if (parameter, forecast_hour) \<in> set (trained_pairs st) \<or>
                 (parameter, forecast_hour) \<notin> set (initialised_pairs st)
         then None
         else (case training_examples (dropna (column_cells df parameter)) hours forecast_hour of
                 None \<Rightarrow> None
               | Some (X, y) \<Rightarrow> if length X < 10 then None else Some (X, y)))"

text \<open>Sixty hourly wind speeds 0, 1, ..., 59.\<close>

definition hourly_ramp :: "real list" where
  "hourly_ramp = map real [0 ..< 60]"

definition ramp_history :: "row list" where
  "ramp_history = map (\<lambda>v. [(''wind_speed'', Num v)]) hourly_ramp"

subsection \<open>Forecasting one parameter\<close>

text \<open>\<open>np.polyfit(x, y, 1)\<close> over \<open>x = 0, 1, ...\<close>: the least-squares line.\<close>

definition polyfit1 :: "real list \<Rightarrow> real \<times> real" where
  "polyfit1 ys =
     (let xs = map real [0 ..< length ys];
          xbar = mean xs;
          ybar = mean ys;
          slope = sum_list (map (\<lambda>(x, y). (x - xbar) * (y - ybar)) (zip xs ys)) /
                  sum_list (map (\<lambda>x. (x - xbar)\<^sup>2) xs)
      in (slope, ybar - slope * xbar))"

definition simple_trend_prediction :: "real list \<Rightarrow> nat \<Rightarrow> real" where
  "simple_trend_prediction vals forecast_hour =
     (if length vals < 2 then (if length vals > 0 then last vals else 0.0)
      else
        (let recent_values = drop (length vals - min 12 (length vals)) vals;
             (slope, intercept) = polyfit1 recent_values
         in slope * real (length recent_values + forecast_hour) + intercept))"

text \<open>
  \<open>_analyze_trend\<close>. The division is one of numpy floats: by zero it gives an
  infinity of the sign of the numerator, or not-a-number for \<open>0 / 0\<close>, which fails
  both comparisons.
\<close>

definition analyze_trend :: "real list \<Rightarrow> real list \<Rightarrow> string" where
  "analyze_trend historical_values preds =
     (if length preds = 0 \<or> length historical_values = 0 then ''unknown''
      else
        (let current_value = last historical_values;
             future_value = last preds
         in if current_value = 0
            then (if future_value > 0 then ''increasing'' else ''decreasing'')
            else
              (let change_percent = ((future_value - current_value) / current_value) * 100
               in if \<bar>change_percent\<bar> < 5 then ''stable''
                  else if change_percent > 0 then ''increasing''
                  else ''decreasing'')))"

text \<open>
  The fitted regressors are a parameter: for a parameter, a horizon and the examples, the
  predictions of the models that answer on the latest feature vector (after the lazy
  training of that horizon). A pair without models, as before \<open>initialize_models\<close>,
  falls back to the linear trend with its interval of ten percent either way; an
  ensemble of which no model answers falls back to the last value.
\<close>

type_synonym regressors = "string \<Rightarrow> nat \<Rightarrow> real list list \<Rightarrow> real list"

definition horizon_forecast ::
  "float_ops \<Rightarrow> predictor_models \<Rightarrow> regressors \<Rightarrow> string \<Rightarrow> real list \<Rightarrow> real list list \<Rightarrow>
   nat \<Rightarrow> real \<times> (real \<times> real)" where
  "horizon_forecast ops st regress parameter vals X forecast_hour =
     (if (parameter, forecast_hour) \<notin> set (initialised_pairs st)
      then (let trend_pred = simple_trend_prediction vals forecast_hour
            in (trend_pred, (trend_pred * 0.9, trend_pred * 1.1)))
      else
        (let ensemble_predictions = regress parameter forecast_hour X
         in if ensemble_predictions \<noteq> []
            then (let avg_prediction = fl_mean ops ensemble_predictions;
                      std_prediction = sqrt (pop_variance ensemble_predictions)
                  in (avg_prediction,
                      (avg_prediction - 1.96 * std_prediction,
                       avg_prediction + 1.96 * std_prediction)))
            else (let last_value = last vals
                  in (last_value, (last_value * 0.95, last_value * 1.05)))))"

text \<open>\<open>_predict_parameter\<close>. A column holding anything but numbers yields no
  examples.\<close>

definition predict_parameter ::
  "float_ops \<Rightarrow> predictor_models \<Rightarrow> regressors \<Rightarrow> parameter_predictor" where
  "predict_parameter ops st regress df parameter hours =
     (let vals = dropna (column_cells df parameter) in
      if length vals < 10 then ([], [], ''insufficient_data'', 1)
      else if hours = [] then ([], [], ''error'', 1)
      else if \<exists>v \<in> set (column_cells df parameter). is_text v
      then ([], [], ''insufficient_features'', 1)
      else
        (let (X, y) = create_time_series_features vals (Max (set hours)) in
         if length X = 0 then ([], [], ''insufficient_features'', 1)
         else
           (let forecasts = map (horizon_forecast ops st regress parameter vals X) hours;
                preds = map fst forecasts;
                intervals = map snd forecasts;
                trend = analyze_trend vals preds;
                max_predicted = (if preds = [] then 0 else Max (set preds))
            in (preds, intervals, trend, assess_threat_severity parameter max_predicted))))"

text \<open>A predictor on which \<open>initialize_models\<close> has not run, no regressors, and sixty
  hours of wind at 130 km/h.\<close>

definition fresh_models :: predictor_models where
  "fresh_models = \<lparr> initialised_pairs = [], trained_pairs = [] \<rparr>"

definition no_regressors :: regressors where
  "no_regressors parameter forecast_hour X = []"

definition gale_history :: "row list" where
  "gale_history = map (\<lambda>v. [(''wind_speed'', Num v)]) (replicate 60 130)"

definition gale_table :: frame where
  "gale_table = \<lparr> df_columns = [''wind_speed''], df_rows = gale_history \<rparr>"

section \<open>anomaly\_detection.py: the anomaly scorer\<close>

subsection \<open>Column statistics\<close>

text \<open>
  \<open>scipy.stats.zscore\<close> divides the deviation from the mean by the population
  standard deviation. On a constant column that is \<open>0 / 0\<close>, not a number, and the
  comparison \<open>z_scores > 3.0\<close> is false.
\<close>

definition z_anomaly :: "real list \<Rightarrow> real \<Rightarrow> bool" where
  "z_anomaly xs x = (pop_variance xs > 0 \<and> \<bar>x - mean xs\<bar> / sqrt (pop_variance xs) > 3.0)"

text \<open>\<open>Series.quantile(q)\<close> interpolates linearly between the two order statistics
  around position \<open>q * (n - 1)\<close>.\<close>

definition quantile :: "real list \<Rightarrow> real \<Rightarrow> real" where
  "quantile xs q =
     (let s = sort xs;
          pos = q * (real (length xs) - 1);
          lo = nat \<lfloor>pos\<rfloor>;
          hi = nat \<lceil>pos\<rceil>
      in s ! lo + (s ! hi - s ! lo) * (pos - real lo))"

definition iqr_anomaly :: "real list \<Rightarrow> real \<Rightarrow> bool" where
  "iqr_anomaly xs x =
     (let Q1 = quantile xs 0.25;
          Q3 = quantile xs 0.75;
          IQR = Q3 - Q1;
          lower_bound = Q1 - 1.5 * IQR;
          upper_bound = Q3 + 1.5 * IQR
      in x < lower_bound \<or> x > upper_bound)"

definition anomaly_count :: "real list \<Rightarrow> nat" where
  "anomaly_count xs = length (filter (\<lambda>x. z_anomaly xs x \<or> iqr_anomaly xs x) xs)"

definition anomaly_ratio :: "float_ops \<Rightarrow> real list \<Rightarrow> real" where
  "anomaly_ratio ops xs = fl_div ops (real (anomaly_count xs)) (real (length xs))"

definition parameter_weights :: "(string \<times> real) list" where
  "parameter_weights =
     [(''temperature'', 1.0), (''pressure'', 1.2), (''wind_speed'', 1.1), (''humidity'', 0.8),
      (''pm25'', 1.3), (''pm10'', 1.2), (''ozone'', 1.1), (''water_temperature'', 1.0),
      (''salinity'', 0.9), (''wave_height'', 1.0), (''tide_level'', 0.8), (''visibility'', 0.9)]"

definition weight_of :: "string \<Rightarrow> real" where
  "weight_of column = (case map_of parameter_weights column of None \<Rightarrow> 1.0 | Some w \<Rightarrow> w)"


definition calculate_severity :: "real \<Rightarrow> int" where
  "calculate_severity score =
     (if score \<ge> 0.95 then 5
      else if score \<ge> 0.85 then 4
      else if score \<ge> 0.75 then 3
      else if score \<ge> 0.6 then 2
      else 1)"

subsection \<open>Statistical path\<close>

text \<open>The per-column entry of \<open>baseline_comparison\<close>; the largest z-score is not a
  number on a constant column.\<close>

record column_score =
  z_score_anomalies :: nat
  iqr_anomalies :: nat
  column_anomaly_ratio :: real
  column_weighted_score :: real
  max_z_score :: "real option"
  latest_value :: real

definition score_column :: "float_ops \<Rightarrow> string \<Rightarrow> real list \<Rightarrow> column_score" where
  "score_column ops column vals =
     \<lparr> z_score_anomalies = length (filter (z_anomaly vals) vals),
       iqr_anomalies = length (filter (iqr_anomaly vals) vals),
       column_anomaly_ratio = anomaly_ratio ops vals,
       column_weighted_score = fl_times ops (anomaly_ratio ops vals) (weight_of column),
       max_z_score = (if pop_variance vals > 0
                      then Some (Max (set (map (\<lambda>x. \<bar>x - mean vals\<bar> / sqrt (pop_variance vals)) vals)))
                      else None),
       latest_value = last vals \<rparr>"

text \<open>
  The loop over the numeric columns. A column without any number is skipped; a column
  whose weighted score exceeds 0.3 is appended to \<open>affected_parameters\<close> and its
  score to \<open>anomalies\<close>.
\<close>

fun statistical_scan ::
  "float_ops \<Rightarrow> frame \<Rightarrow> string list \<Rightarrow>
   (string \<times> column_score) list \<times> string list \<times> real list" where
  "statistical_scan ops df [] = ([], [], [])"
| "statistical_scan ops df (column # columns) =
     (let vals = dropna (column_cells df column) in
      if length vals = 0 then statistical_scan ops df columns
      else
        (let weighted = fl_times ops (anomaly_ratio ops vals) (weight_of column);
             (scores, affected, anomalies) = statistical_scan ops df columns
         in ((column, score_column ops column vals) # scores,
             (if weighted > 0.3 then column # affected else affected),
             (if weighted > 0.3 then weighted # anomalies else anomalies))))"

datatype diagnostics =
  NoDiagnostics
  | ColumnScores "(string \<times> column_score) list"
  | ModelScores "(string \<times> nat \<times> real \<times> real \<times> real) list"

datatype anomaly_metadata = AnomalyError string | AnomalyRun nat nat

text \<open>The result without its description and recommendation texts.\<close>

record anomaly_result =
  is_anomaly :: bool
  anomaly_score :: real
  anomaly_severity :: int
  anomaly_confidence :: real
  affected_parameters :: "string list"
  anomaly_method :: string
  baseline_comparison :: diagnostics
  anomaly_meta :: anomaly_metadata

definition create_empty_result :: "string \<Rightarrow> anomaly_result" where
  "create_empty_result message =
     \<lparr> is_anomaly = False,
       anomaly_score = 0.0,
       anomaly_severity = 1,
       anomaly_confidence = 0.0,
       affected_parameters = [],
       anomaly_method = ''none'',
       baseline_comparison = NoDiagnostics,
       anomaly_meta = AnomalyError message \<rparr>"


definition statistical_anomaly_detection :: "float_ops \<Rightarrow> frame \<Rightarrow> anomaly_result" where
  "statistical_anomaly_detection ops current_data =
     (let (scores, affected, anomalies) =
            statistical_scan ops current_data (numeric_columns current_data);
          overall_score = (if anomalies = [] then 0.0 else fl_mean ops anomalies);
          confidence = min (fl_times ops overall_score 2) 1.0
      in \<lparr> is_anomaly = (overall_score > 0.5),
           anomaly_score = round4 overall_score,
           anomaly_severity = calculate_severity overall_score,
           anomaly_confidence = round4 confidence,
           affected_parameters = affected,
           anomaly_method = ''statistical'',
           baseline_comparison = ColumnScores scores,
           anomaly_meta = AnomalyRun (length (df_rows current_data)) (length scores) \<rparr>)"

subsection \<open>Ensemble path\<close>

text \<open>
  The fitted scikit-learn objects are parameters. A fitted RobustScaler is its centre and
  scale per feature and maps every row by itself (a missing value stays missing); a
  detector, given the scaled matrix, either raises or labels every row with a prediction
  (\<open>-1\<close> for an outlier) and a score, one per row as scikit-learn returns them.
\<close>

type_synonym feature_matrix = "real option list list"

type_synonym detector = "feature_matrix \<Rightarrow> (real option list \<Rightarrow> int \<times> real) option"

record baseline =
  baseline_mean :: "(string \<times> real) list"
  baseline_std :: "(string \<times> real) list"
  baseline_min :: "(string \<times> real) list"
  baseline_max :: "(string \<times> real) list"

record detector_state =
  detectors :: "(string \<times> detector) list"
  robust_scaler :: "(real list \<times> real list) option"
  baseline_stats :: "baseline option"
  anomaly_trained :: bool

text \<open>\<open>current_data[numeric_columns].fillna(current_data[numeric_columns].mean())\<close>:
  a column without any number has no mean and stays missing.\<close>

definition column_mean :: "frame \<Rightarrow> string \<Rightarrow> real option" where
  "column_mean df c =
     (let vals = dropna (column_cells df c) in if vals = [] then None else Some (mean vals))"

definition fill_with_mean :: "frame \<Rightarrow> string list \<Rightarrow> feature_matrix" where
  "fill_with_mean df cols =
     map (\<lambda>r. map (\<lambda>c. case cell_at r c of Num x \<Rightarrow> Some x | _ \<Rightarrow> column_mean df c) cols)
         (df_rows df)"

definition robust_transform :: "(real list \<times> real list) option \<Rightarrow> feature_matrix \<Rightarrow> feature_matrix option" where
  "robust_transform fitted X =
     (case fitted of
        None \<Rightarrow> None
      | Some (centre, scale) \<Rightarrow>
          if \<exists>r \<in> set X. length r \<noteq> length centre then None
          else Some (map (\<lambda>r. map (\<lambda>(v, c, sc). map_option (\<lambda>x. (x - c) / sc) v)
                                  (zip r (zip centre scale))) X))"

text \<open>The loop over the models: a model that raises is skipped, every other one
  contributes its fraction of rows predicted \<open>-1\<close>.\<close>

fun model_results ::
  "float_ops \<Rightarrow> (string \<times> detector) list \<Rightarrow> feature_matrix \<Rightarrow>
   (string \<times> nat \<times> real \<times> real \<times> real) list" where
  "model_results ops [] X_scaled = []"
| "model_results ops ((model_name, model) # ms) X_scaled =
     (case model X_scaled of
        None \<Rightarrow> model_results ops ms X_scaled
      | Some label \<Rightarrow>
          (let predictions = map (\<lambda>r. fst (label r)) X_scaled;
               scores = map (\<lambda>r. - snd (label r)) X_scaled;
               count = length (filter (\<lambda>p. p = -1) predictions);
               ratio = fl_div ops (real count) (real (length predictions));
               avg_score = (if length scores > 0 then fl_mean ops scores else 0.0);
               max_score = (if length scores > 0 then Max (set scores) else 0.0)
           in (model_name, count, ratio, avg_score, max_score) # model_results ops ms X_scaled))"

definition lookup_or :: "(string \<times> real) list \<Rightarrow> string \<Rightarrow> real \<Rightarrow> real" where
  "lookup_or table key dflt = (case map_of table key of None \<Rightarrow> dflt | Some v \<Rightarrow> v)"

fun affected_loop :: "baseline \<Rightarrow> frame \<Rightarrow> string list \<Rightarrow> string list" where
  "affected_loop stats current_data [] = []"
| "affected_loop stats current_data (col # cols) =
     (let current_values = dropna (column_cells current_data col) in
      if length current_values = 0 then affected_loop stats current_data cols
      else
        (let latest = last current_values;
             b_mean = lookup_or (baseline_mean stats) col 0;
             b_std = lookup_or (baseline_std stats) col 1;
             b_min = lookup_or (baseline_min stats) col 0;
             b_max = lookup_or (baseline_max stats) col 0
         in if b_std > 0 \<and> (\<bar>(latest - b_mean) / b_std\<bar> > 2.0 \<or> latest < b_min * 0.8 \<or>
                             latest > b_max * 1.2)
            then col # affected_loop stats current_data cols
            else affected_loop stats current_data cols))"

definition identify_affected_parameters :: "detector_state \<Rightarrow> frame \<Rightarrow> string list \<Rightarrow> string list" where
  "identify_affected_parameters self current_data columns =
     (case baseline_stats self of
        None \<Rightarrow> columns
      | Some stats \<Rightarrow> affected_loop stats current_data columns)"

text \<open>\<open>_ml_anomaly_detection\<close> on the state left by the training step; it is called
  with a frame that has at least one row.\<close>

definition ml_anomaly_detection :: "float_ops \<Rightarrow> detector_state \<Rightarrow> frame \<Rightarrow> anomaly_result" where
  "ml_anomaly_detection ops self current_data =
     (let numeric_cols = numeric_columns current_data in
      if length numeric_cols = 0 then create_empty_result ''No numeric data for ML detection''
      else
        (case robust_transform (robust_scaler self) (fill_with_mean current_data numeric_cols) of
           None \<Rightarrow> create_empty_result ''ML detection error''
         | Some X_scaled \<Rightarrow>
             (let results = model_results ops (detectors self) X_scaled;
                  anomaly_scores = map (\<lambda>(name, count, ratio, avg, mx). ratio) results
              in if anomaly_scores = [] then create_empty_result ''No model predictions available''
                 else
                   (let overall_score = fl_mean ops anomaly_scores;
                        confidence = min (fl_times ops overall_score 3) 1.0
                    in \<lparr> is_anomaly = (overall_score > 0.1),
                         anomaly_score = round4 overall_score,
                         anomaly_severity = calculate_severity (fl_times ops overall_score 5),
                         anomaly_confidence = round4 confidence,
                         affected_parameters =
                           identify_affected_parameters self current_data numeric_cols,
                         anomaly_method = ''ensemble_ml'',
                         baseline_comparison = ModelScores results,
                         anomaly_meta = AnomalyRun (length (df_rows current_data))
                                                   (length results) \<rparr>))))"

subsection \<open>detect\_anomalies\<close>

text \<open>\<open>df[numeric_cols].fillna(df[numeric_cols].mean())\<close> followed by
  \<open>df[numeric_cols]\<close>: only the numeric columns remain.\<close>

definition select_fill_mean :: "frame \<Rightarrow> frame" where
  "select_fill_mean df =
     (let numeric_cols = numeric_columns df
      in \<lparr> df_columns = numeric_cols,
           df_rows = map (\<lambda>r. map (\<lambda>c. (c, case cell_at r c of
                                               Num x \<Rightarrow> Num x
                                             | _ \<Rightarrow> (case column_mean df c of
                                                       None \<Rightarrow> NaN
                                                     | Some m \<Rightarrow> Num m))) numeric_cols)
                         (df_rows df) \<rparr>)"

text \<open>\<open>AnomalyDetector._prepare_features\<close>; every exception ends in the empty frame.\<close>

definition prepare_features_anomaly :: "num_format \<Rightarrow> row list \<Rightarrow> frame" where
  "prepare_features_anomaly fmt data =
     (if data = [] then empty_frame
      else
        (let df = frame_of_records data;
             pivoted = (if ''data_type'' \<in> set (df_columns df) \<and> ''value'' \<in> set (df_columns df)
                        then pivot_table fmt df else Some df)
         in case pivoted of
              None \<Rightarrow> empty_frame
            | Some df1 \<Rightarrow>
                (let df2 = rename_columns clean_name df1
                 in if length (numeric_columns df2) = 0 then empty_frame
                    else select_fill_mean df2)))"

text \<open>
  \<open>detect_anomalies\<close>. Fitting the detectors on the historical data
  (\<open>_train_on_historical_data\<close>) is a parameter: it maps the state before to the state
  after.
\<close>

definition detect_anomalies ::
  "float_ops \<Rightarrow> num_format \<Rightarrow> (row list \<Rightarrow> detector_state \<Rightarrow> detector_state) \<Rightarrow>
   detector_state \<Rightarrow> row list \<Rightarrow> row list option \<Rightarrow> anomaly_result" where
  "detect_anomalies ops fmt train self current_data historical_data =
     (let current_df = prepare_features_anomaly fmt current_data in
      if df_empty current_df then create_empty_result ''No valid data for anomaly detection''
      else if historical_data = None \<and> \<not> anomaly_trained self
      then statistical_anomaly_detection ops current_df
      else if anomaly_trained self \<or> (historical_data \<noteq> None \<and> historical_data \<noteq> Some [])
      then ml_anomaly_detection ops
             (case historical_data of
                Some hist \<Rightarrow> if hist \<noteq> [] \<and> \<not> anomaly_trained self then train hist self else self
              | None \<Rightarrow> self)
             current_df
      else create_empty_result ''Insufficient data for anomaly detection'')"

subsection \<open>Sample tables for the anomaly scorer\<close>

text \<open>Five PM2.5 readings, two of them away from the rest, and five constant humidity
  readings.\<close>

definition spiky_table :: frame where
  "spiky_table =
     \<lparr> df_columns = [''pm25'', ''humidity''],
       df_rows = map (\<lambda>v. [(''pm25'', Num v), (''humidity'', Num 50)]) [0, 10, 10, 10, 20] \<rparr>"

section \<open>Valid inputs\<close>

text \<open>
  The rounded operations of a valid arithmetic: product and quotient are the exact
  results rounded by a monotone function that leaves 0, 3/4 and 1 (all doubles) as they
  are, and the mean of numbers between 0 and 1 lies between 0 and 1. IEEE double
  arithmetic rounding to nearest is of this kind.
\<close>

definition rounding_ops :: "float_ops \<Rightarrow> bool" where
  "rounding_ops ops \<longleftrightarrow>
     (\<exists>fl. mono fl \<and> fl 0 = 0 \<and> fl (3 / 4) = 3 / 4 \<and> fl 1 = 1 \<and>
           (\<forall>x y. fl_times ops x y = fl (x * y)) \<and>
           (\<forall>x y. fl_div ops x y = fl (x / y))) \<and>
     (\<forall>xs. xs \<noteq> [] \<and> (\<forall>x \<in> set xs. 0 \<le> x \<and> x \<le> 1) \<longrightarrow>
             0 \<le> fl_mean ops xs \<and> fl_mean ops xs \<le> 1)"

text \<open>The valid ranges that \<open>data_preprocessing.py\<close> declares for the parameters.\<close>

definition parameter_ranges :: "(string \<times> real \<times> real) list" where
  "parameter_ranges =
     [(''temperature'', (-50, 60)),
      (''water_temperature'', (-5, 40)),
      (''humidity'', (0, 100)),
      (''pressure'', (900, 1100)),
      (''wind_speed'', (0, 200)),
      (''wind_direction'', (0, 360)),
      (''visibility'', (0, 50)),
      (''wave_height'', (0, 30)),
      (''tide_level'', (-5, 5)),
      (''salinity'', (0, 45)),
      (''pm25'', (0, 500)),
      (''pm10'', (0, 1000)),
      (''ozone'', (0, 300)),
      (''nitrogen_dioxide'', (0, 200)),
      (''sulfur_dioxide'', (0, 100)),
      (''carbon_monoxide'', (0, 50))]"

text \<open>A frame of valid readings: every number recorded for a declared parameter lies in
  its range.\<close>

definition within_declared_ranges :: "frame \<Rightarrow> bool" where
  "within_declared_ranges df \<longleftrightarrow>
     (\<forall>r \<in> set (df_rows df). \<forall>(c, v) \<in> set r.
        case (v, map_of parameter_ranges c) of
          (Num x, Some (lo, hi)) \<Rightarrow> lo \<le> x \<and> x \<le> hi
        | _ \<Rightarrow> True)"

text \<open>An engine whose fitted classifiers return probabilities.\<close>

definition returns_probabilities :: "engine \<Rightarrow> bool" where
  "returns_probabilities eng \<longleftrightarrow>
     (\<forall>(t, ensemble) \<in> set (models eng). \<forall>(name, model) \<in> set ensemble.
        \<forall>X pred_proba. model X = Some pred_proba \<longrightarrow>
          (\<forall>r \<in> set pred_proba. \<forall>p \<in> set r. 0 \<le> p \<and> p \<le> 1))"

definition untrained_detectors :: detector_state where
  "untrained_detectors =
     \<lparr> detectors = [], robust_scaler = None, baseline_stats = None, anomaly_trained = False \<rparr>"

definition spiky_records :: "row list" where
  "spiky_records = map (\<lambda>v. [(''pm25'', Num v), (''humidity'', Num 50)]) [0, 10, 10, 10, 20]"

section \<open>Properties\<close>

text \<open>
  C7: the PM2.5 AQI sub-index is 50 at exactly 12.0, 51 at 12.1 (the lower bound of the
  next tier), and 500 for every concentration above the top breakpoint 350.4.
\<close>

theorem C7_aqi_pm25_boundaries:
  "pm25_to_aqi (Some 12.0) = Some 50 \<and>
   pm25_to_aqi (Some 12.1) = Some 51 \<and>
   (\<forall>v. 350.4 < v \<longrightarrow> pm25_to_aqi (Some v) = Some 500)"
  by (simp add: pm25_to_aqi_def pm25_breakpoints_def py_round_def)

theorem C7_aqi_pm25_boundaries_witness:
  "pm25_to_aqi (Some 12.0) = Some 50 \<and> pm25_to_aqi (Some 12.1) = Some 51 \<and>
   (350.4 :: real) < 400 \<and> pm25_to_aqi (Some 400) = Some 500"
  using C7_aqi_pm25_boundaries by simp


subsection \<open>Threat classifier\<close>

lemma map_of_tabulate:
  "map_of (map (\<lambda>c. (c, f c)) cs) k = (if k \<in> set cs then Some (f k) else None)"
  by (induction cs) auto

lemma series_get_select:
  assumes "df_rows data \<noteq> []"
  shows "series_get (latest_row (select_fillna0 data cs)) k d =
         (if k \<in> set cs then fillna0_cell (cell_at (last (df_rows data)) k) else Val d)"
  using assms
  by (simp add: series_get_def latest_row_def select_fillna0_def last_map map_of_tabulate)

lemma storm_available:
  assumes "map_of (feature_columns eng) ''storm'' = Some fs" "''wind_speed'' \<in> set fs"
    "''pressure'' \<in> set fs" "''wind_speed'' \<in> set (df_columns data)"
    "''pressure'' \<in> set (df_columns data)"
  shows "\<not> length (filter (\<lambda>f. f \<in> set (df_columns data)) fs) < 2"
proof -
  let ?av = "filter (\<lambda>f. f \<in> set (df_columns data)) fs"
  have "{''wind_speed'', ''pressure''} \<subseteq> set ?av" using assms by simp
  then have "card {''wind_speed'', ''pressure''} \<le> card (set ?av)"
    by (intro card_mono) auto
  moreover have "card (set ?av) \<le> length ?av" by (rule card_length)
  ultimately show ?thesis by simp
qed

text \<open>
  C6: with no trained storm model, a frame whose latest row has wind speed 130 and
  pressure 970 is classified as a storm of severity 5, detected, with confidence at
  least 0.95 (the wind bracket gives 0.95 and 5, the pressure bonus caps at 1.0 and 5).
\<close>

theorem C6_storm_rule_fallback:
  assumes "map_of (feature_columns eng) ''storm'' = Some fs"
    and "''wind_speed'' \<in> set fs" and "''pressure'' \<in> set fs"
    and "map_of (is_trained eng) ''storm'' = Some False"
    and "''wind_speed'' \<in> set (df_columns data)" and "''pressure'' \<in> set (df_columns data)"
    and "df_rows data \<noteq> []"
    and "cell_at (last (df_rows data)) ''wind_speed'' = Num 130"
    and "cell_at (last (df_rows data)) ''pressure'' = Num 970"
  shows "\<exists>r. detect_single_threat ops eng ''storm'' data = Some r \<and> threat_type r = ''storm'' \<and>
             severity r = 5 \<and> detected r \<and> 0.95 \<le> confidence r"
  using assms storm_available[OF assms(1,2,3,5,6)]
  by (simp add: detect_single_threat_def Let_def rule_based_detection_def rule_based_try_def
      series_get_select storm_rule_def confidence_thresholds_def round4_def py_round_def)

theorem C6_storm_rule_fallback_witness:
  "\<exists>r. detect_single_threat exact_ops initialized_engine ''storm'' storm_input = Some r \<and>
       threat_type r = ''storm'' \<and> severity r = 5 \<and> detected r \<and> 0.95 \<le> confidence r"
  by (rule C6_storm_rule_fallback
        [where fs = "[''wind_speed'', ''pressure'', ''temperature'', ''humidity'',
                      ''visibility'', ''wind_direction'']"])
     (simp_all add: initialized_engine_def configured_threat_types_def threat_features_def
        storm_input_def cell_at_def)













subsection \<open>Threat predictor: risk severity and predicted alerts\<close>

lemma assess_pressure: "assess_threat_severity ''pressure'' v = (if v \<le> 1000 then 2 else 1)"
  by (simp add: assess_threat_severity_def risk_thresholds_def)

lemma assess_visibility: "assess_threat_severity ''visibility'' v = (if v \<le> 5 then 2 else 1)"
  by (simp add: assess_threat_severity_def risk_thresholds_def)

lemma alerts_loop_sound:
  "alerts_loop p preds conf i hours = Some as \<Longrightarrow> a \<in> set as \<Longrightarrow>
   alert_parameter a = p \<and> 3 \<le> assess_threat_severity p (alert_predicted_value a)"
proof (induction hours arbitrary: i as)
  case Nil
  then show ?case by simp
next
  case (Cons hour hours)
  then show ?case
    by (auto simp: Let_def split: if_splits option.splits)
qed

lemma parameters_loop_sound:
  "parameters_loop pp df hours ps = Some (entries, alerts) \<Longrightarrow> a \<in> set alerts \<Longrightarrow>
   3 \<le> assess_threat_severity (alert_parameter a) (alert_predicted_value a)"
proof (induction ps arbitrary: entries alerts)
  case Nil
  then show ?case by simp
next
  case (Cons p ps)
  show ?case
  proof (cases "p \<in> set (df_columns df)")
    case False
    with Cons show ?thesis by simp
  next
    case True
    obtain pr ci tr ri where pp: "pp df p hours = (pr, ci, tr, ri)"
      by (cases "pp df p hours") auto
    from Cons.prems(1) True pp obtain as es more where
      own: "alerts_loop p pr ci 0 hours = Some as" and
      rest: "parameters_loop pp df hours ps = Some (es, more)" and
      split: "alerts = as @ more"
      by (auto split: option.splits)
    from Cons.prems(2) split consider "a \<in> set as" | "a \<in> set more" by auto
    then show ?thesis
    proof cases
      case 1
      with alerts_loop_sound[OF own] show ?thesis by auto
    next
      case 2
      with Cons.IH[OF rest] show ?thesis by simp
    qed
  qed
qed

lemma predict_threats_alert_sound:
  "a \<in> set (alerts_predicted (predict_threats self fmt pp perf data hrs)) \<Longrightarrow>
   3 \<le> assess_threat_severity (alert_parameter a) (alert_predicted_value a)"
  by (auto simp: predict_threats_def Let_def create_empty_prediction_def
      split: if_splits option.splits dest: parameters_loop_sound)

lemma clean_pressure: "clean_name ''pressure'' = ''pressure''"
  by (simp add: clean_name_def lower_char_def)

lemma clean_wind_speed: "clean_name ''wind_speed'' = ''wind_speed''"
  by (simp add: clean_name_def lower_char_def)

lemma prepare_sample_history:
  "prepare_features_predictor no_format sample_history =
     \<lparr> df_columns = [''pressure'', ''wind_speed''],
       df_rows = [[(''pressure'', Num 950), (''wind_speed'', Num 130)]] \<rparr>"
  by (simp add: prepare_features_predictor_def sample_history_def frame_of_records_def
      rename_columns_def clean_pressure clean_wind_speed fillna0_numeric_def numeric_columns_def
      column_cells_def cell_at_def Let_def)

lemma sample_run_alerts:
  "map alert_parameter (alerts_predicted
     (predict_threats sample_predictor no_format persistence_forecast no_performance
        sample_history None)) = [''wind_speed'']"
  by (simp add: predict_threats_def prepare_sample_history sample_predictor_def df_empty_def
      prediction_parameters_def persistence_forecast_def cell_at_def Let_def
      assess_threat_severity_def risk_thresholds_def)

text \<open>
  C10: for the descending-threshold parameters the severity function returns 2 when the
  value is at or below the first threshold (pressure 1000, visibility 5) and 1
  otherwise, so never more than 2; hence no predicted alert, which needs severity 3,
  is ever about pressure or visibility.
\<close>

theorem C10_descending_severity_at_most_2:
  "assess_threat_severity ''pressure'' v = (if v \<le> 1000 then 2 else 1) \<and>
   assess_threat_severity ''visibility'' v = (if v \<le> 5 then 2 else 1) \<and>
   assess_threat_severity ''pressure'' v \<le> 2 \<and>
   assess_threat_severity ''visibility'' v \<le> 2 \<and>
   (a \<in> set (alerts_predicted (predict_threats self fmt pp perf data hrs)) \<longrightarrow>
      alert_parameter a \<noteq> ''pressure'' \<and> alert_parameter a \<noteq> ''visibility'')"
proof -
  have "alert_parameter a \<noteq> ''pressure'' \<and> alert_parameter a \<noteq> ''visibility''"
    if "a \<in> set (alerts_predicted (predict_threats self fmt pp perf data hrs))"
    using predict_threats_alert_sound[OF that]
    by (auto simp: assess_pressure assess_visibility split: if_splits)
  then show ?thesis
    by (simp add: assess_pressure assess_visibility)
qed

theorem C10_descending_severity_at_most_2_witness:
  "assess_threat_severity ''pressure'' 950 = 2 \<and>
   assess_threat_severity ''visibility'' 0 = 2 \<and>
   map alert_parameter (alerts_predicted
     (predict_threats sample_predictor no_format persistence_forecast no_performance
        sample_history None)) = [''wind_speed''] \<and>
   ''pressure'' \<notin> alert_parameter ` set (alerts_predicted
     (predict_threats sample_predictor no_format persistence_forecast no_performance
        sample_history None))"
  using C10_descending_severity_at_most_2[of 950]
    C10_descending_severity_at_most_2[of 0 _ sample_predictor no_format persistence_forecast
      no_performance sample_history None]
    sample_run_alerts
  by auto

subsection \<open>Threat predictor: insufficient history\<close>

lemma length_insort_by: "length (insort_by key x xs) = Suc (length xs)"
  by (induction xs) auto

lemma length_fold_insort_by: "length (fold (insort_by key) xs acc) = length xs + length acc"
  by (induction xs arbitrary: acc) (auto simp: length_insort_by)

lemma length_sort_by: "length (sort_by key xs) = length xs"
  by (simp add: sort_by_def length_fold_insort_by)

lemma pivot_table_rows:
  assumes "pivot_table fmt df = Some df'"
  shows "length (df_rows df') \<le> length (df_rows df)"
proof -
  define keyed where
    "keyed = map (\<lambda>(i, r). (if ''timestamp'' \<in> set (df_columns df) then cell_at r ''timestamp''
                            else Num (real i),
                          cell_at r ''data_type'', cell_at r ''value''))
               (enumerate 0 (df_rows df))"
  define valid where "valid = filter (\<lambda>(k, t, v). k \<noteq> NaN \<and> t \<noteq> NaN \<and> is_num v) keyed"
  have "length (df_rows df') = length (sort_by id (remdups (map fst valid)))"
    using assms unfolding pivot_table_def Let_def keyed_def[symmetric] valid_def[symmetric]
    by (auto split: if_splits)
  also have "\<dots> \<le> length valid"
    by (simp add: length_sort_by) (metis length_map length_remdups_leq)
  also have "\<dots> \<le> length keyed" by (simp add: valid_def)
  also have "\<dots> = length (df_rows df)" by (simp add: keyed_def)
  finally show ?thesis .
qed

lemma prepare_features_predictor_rows:
  "length (df_rows (prepare_features_predictor fmt data)) \<le> length data"
proof (cases "data = []")
  case True
  then show ?thesis by (simp add: prepare_features_predictor_def empty_frame_def)
next
  case False
  have fr: "df_rows (frame_of_records data) = data" by (simp add: frame_of_records_def)
  have step: "length (df_rows d1) \<le> length data \<Longrightarrow>
     length (df_rows (let df2 = fillna0_numeric (rename_columns clean_name d1)
                 in if ''timestamp'' \<in> set (df_columns df2)
                    then (case sort_values ''timestamp'' df2 of
                            None \<Rightarrow> empty_frame
                          | Some df3 \<Rightarrow> df3)
                    else df2)) \<le> length data" for d1
    by (auto simp: Let_def fillna0_numeric_def rename_columns_def sort_values_def empty_frame_def
        length_sort_by split: option.splits if_splits)
  show ?thesis
  proof (cases "''data_type'' \<in> set (df_columns (frame_of_records data)) \<and>
                ''value'' \<in> set (df_columns (frame_of_records data))")
    case True
    show ?thesis
    proof (cases "pivot_table fmt (frame_of_records data)")
      case None
      with True False show ?thesis by (simp add: prepare_features_predictor_def empty_frame_def)
    next
      case (Some d1)
      from pivot_table_rows[OF Some] fr have "length (df_rows d1) \<le> length data" by simp
      from step[OF this] True False Some show ?thesis
        by (simp add: prepare_features_predictor_def)
    qed
  next
    case long: False
    from step[of "frame_of_records data"] fr long False show ?thesis
      by (auto simp add: prepare_features_predictor_def)
  qed
qed

text \<open>
  C8: for every history with fewer records than the configured minimum, the empty list
  included, \<open>predict_threats\<close> returns the empty prediction: no predictions, and
  metadata carrying the message about insufficient data. The function is total: every
  exception path of the source is a value of the model.
\<close>

theorem C8_insufficient_history:
  assumes "length data < min_data_points self"
  shows "predict_threats self fmt pp perf data hrs =
           create_empty_prediction self ''Insufficient historical data'' \<and>
         predictions (predict_threats self fmt pp perf data hrs) = [] \<and>
         alerts_predicted (predict_threats self fmt pp perf data hrs) = [] \<and>
         metadata (predict_threats self fmt pp perf data hrs) =
           MetaError ''Insufficient historical data''"
  using assms prepare_features_predictor_rows[of fmt data]
  by (simp add: predict_threats_def Let_def create_empty_prediction_def)

theorem C8_insufficient_history_witness:
  "predictions (predict_threats default_predictor no_format persistence_forecast no_performance
      [] None) = [] \<and>
   metadata (predict_threats default_predictor no_format persistence_forecast no_performance
      [] None) = MetaError ''Insufficient historical data'' \<and>
   predictions (predict_threats default_predictor no_format persistence_forecast no_performance
      sample_history None) = [] \<and>
   metadata (predict_threats default_predictor no_format persistence_forecast no_performance
      sample_history None) = MetaError ''Insufficient historical data''"
proof -
  have none: "length ([] :: row list) < min_data_points default_predictor"
    by (simp add: default_predictor_def)
  have one: "length sample_history < min_data_points default_predictor"
    by (simp add: default_predictor_def sample_history_def)
  show ?thesis
    using C8_insufficient_history[OF none, of no_format persistence_forecast no_performance None]
      C8_insufficient_history[OF one, of no_format persistence_forecast no_performance None]
    by (simp add: create_empty_prediction_def)
qed

subsection \<open>Threat predictor: training examples\<close>

lemma remdups_const: "vs \<noteq> [] \<Longrightarrow> remdups (map (\<lambda>v. c) vs) = [c]"
proof (induction vs)
  case Nil
  then show ?case by simp
next
  case (Cons v vs)
  then show ?case by (cases vs) auto
qed

lemma single_column_frame:
  assumes "vs \<noteq> []"
  shows "frame_of_records (map (\<lambda>v. [(''wind_speed'', Num v)]) vs) =
           \<lparr> df_columns = [''wind_speed''], df_rows = map (\<lambda>v. [(''wind_speed'', Num v)]) vs \<rparr>"
proof -
  have "concat (map (map fst) (map (\<lambda>v. [(''wind_speed'', Num v)]) vs)) = map (\<lambda>v. ''wind_speed'') vs"
    by (induction vs) auto
  then show ?thesis
    using assms by (simp add: frame_of_records_def rev_map remdups_const)
qed

lemma prepare_single_column:
  assumes "vs \<noteq> []"
  shows "prepare_features_predictor fmt (map (\<lambda>v. [(''wind_speed'', Num v)]) vs) =
           \<lparr> df_columns = [''wind_speed''], df_rows = map (\<lambda>v. [(''wind_speed'', Num v)]) vs \<rparr>"
  using assms
  by (simp add: prepare_features_predictor_def single_column_frame rename_columns_def
      clean_wind_speed fillna0_numeric_def numeric_columns_def column_cells_def cell_at_def
      Let_def o_def)

lemma single_column_values:
  "dropna (column_cells \<lparr> df_columns = [''wind_speed''],
                          df_rows = map (\<lambda>v. [(''wind_speed'', Num v)]) vs \<rparr> ''wind_speed'') = vs"
  by (induction vs) (auto simp: dropna_def column_cells_def cell_at_def)

lemma single_column_no_text:
  "\<not> (\<exists>v \<in> set (column_cells \<lparr> df_columns = [''wind_speed''],
                                 df_rows = map (\<lambda>v. [(''wind_speed'', Num v)]) vs \<rparr>
                                ''wind_speed''). is_text v)"
  by (auto simp: column_cells_def cell_at_def)

lemma hourly_ramp_labels_max:
  "snd (create_time_series_features hourly_ramp 4) = map real [24 ..< 60]"
  by (simp add: create_time_series_features_def window_size_of_def hourly_ramp_def Let_def
      map_add_upt[symmetric] del: upt.simps)

lemma hourly_ramp_labels_spec:
  "snd (spec_training_examples hourly_ramp 2) = map real [22 ..< 60]"
  by (simp add: spec_training_examples_def create_time_series_features_def window_size_of_def
      hourly_ramp_def Let_def map_add_upt[symmetric] del: upt.simps)

lemma hourly_ramp_examples_count:
  "length (fst (create_time_series_features hourly_ramp 4)) = 36"
  by (simp add: create_time_series_features_def window_size_of_def hourly_ramp_def Let_def)

lemma ramp_history_fitted:
  assumes "h = 2 \<or> h = 4"
  shows "fitted_examples default_predictor (initialized_models default_predictor) no_format
           ramp_history (Some [2, 4]) ''wind_speed'' h =
         Some (create_time_series_features hourly_ramp 4)"
proof -
  have ne: "hourly_ramp \<noteq> []" by (simp add: hourly_ramp_def)
  have len: "length hourly_ramp = 60" by (simp add: hourly_ramp_def)
  have X: "fst (create_time_series_features hourly_ramp 4) \<noteq> []"
    using hourly_ramp_examples_count by auto
  show ?thesis
    using assms X hourly_ramp_examples_count ne
    by (auto simp: fitted_examples_def ramp_history_def prepare_single_column[OF ne] Let_def
        df_empty_def len default_predictor_def prediction_parameters_def single_column_values
        single_column_no_text initialized_models_def requested_hours_or_default_def
        training_examples_def case_prod_beta)
qed

text \<open>
  C1, what the source does: within one call the examples are built once from the
  largest requested horizon, so whichever horizons have their models fitted are fitted
  on the same feature vectors and the same labels, and each label is the value
  \<open>max(forecast_hours)\<close> steps after the window end whatever the horizon.
\<close>

theorem C1_examples_shared_by_all_horizons:
  assumes "fitted_examples self st fmt historical_data requested parameter h1 = Some (X1, y1)"
    and "fitted_examples self st fmt historical_data requested parameter h2 = Some (X2, y2)"
  shows "X1 = X2 \<and> y1 = y2 \<and>
         y1 = (let vals = dropna (column_cells (prepare_features_predictor fmt historical_data)
                                    parameter);
                   m = Max (set (requested_hours_or_default self requested))
               in map (\<lambda>i. vals ! (i + m)) [window_size_of vals ..< length vals - m])"
  using assms
  by (auto simp: fitted_examples_def training_examples_def create_time_series_features_def
      Let_def split: if_splits option.splits)

theorem C1_examples_shared_by_all_horizons_witness:
  "fitted_examples default_predictor (initialized_models default_predictor) no_format
     ramp_history (Some [2, 4]) ''wind_speed'' 2 =
   fitted_examples default_predictor (initialized_models default_predictor) no_format
     ramp_history (Some [2, 4]) ''wind_speed'' 4 \<and>
   map_option snd (fitted_examples default_predictor (initialized_models default_predictor)
     no_format ramp_history (Some [2, 4]) ''wind_speed'' 2) = Some (map real [24 ..< 60]) \<and>
   snd (spec_training_examples hourly_ramp 2) = map real [22 ..< 60]"
proof -
  obtain X y where xy: "create_time_series_features hourly_ramp 4 = (X, y)"
    by (cases "create_time_series_features hourly_ramp 4") auto
  have two: "fitted_examples default_predictor (initialized_models default_predictor) no_format
      ramp_history (Some [2, 4]) ''wind_speed'' 2 = Some (X, y)"
    using ramp_history_fitted[of 2] xy by simp
  have four: "fitted_examples default_predictor (initialized_models default_predictor) no_format
      ramp_history (Some [2, 4]) ''wind_speed'' 4 = Some (X, y)"
    using ramp_history_fitted[of 4] xy by simp
  have "y = map real [24 ..< 60]" using hourly_ramp_labels_max xy by simp
  with C1_examples_shared_by_all_horizons[OF two four] two four hourly_ramp_labels_spec
  show ?thesis by simp
qed

subsection \<open>Anomaly scorer: statistical path\<close>




lemma pm25_values: "dropna (column_cells spiky_table ''pm25'') = [0, 10, 10, 10, 20]"
  by (simp add: dropna_def column_cells_def spiky_table_def cell_at_def)









end
